theory Spec2Isabelle
  imports Complex_Main
begin

section \<open>The RFID door reader (rfid_reader.py)\<close>

text \<open>
  The reader is one Python script. It reads a credential per line, asks the backend to
  verify it, activates a credential that is still assigned, and then either unlocks the
  door through a relay or flashes the relay and records a denial. This theory embeds the
  script as functions over an explicit machine state: the level driven on the relay pin,
  the sequence of effects performed so far on the main thread, and the number of HTTP
  requests made so far on the main thread.
\<close>

subsection \<open>Values\<close>

text \<open>
  What \<open>response.json()\<close> returns: Python's rendering of a JSON document. \<open>None\<close> is
  \<open>JNull\<close>. A dict is an association list read with \<open>map_of\<close>. A float is a rational
  number here (NaN and the infinities are not represented).
\<close>

datatype json =
    JNull
  | JBool bool
  | JInt int
  | JFloat rat
  | JStr string
  | JList "json list"
  | JDict "(string \<times> json) list"

text \<open>Python's truth value of an object, as \<open>if x:\<close> and \<open>not x\<close> test it.\<close>

fun truthy :: "json \<Rightarrow> bool" where
  "truthy JNull = False"
| "truthy (JBool b) = b"
| "truthy (JInt i) = (i \<noteq> 0)"
| "truthy (JFloat r) = (r \<noteq> 0)"
| "truthy (JStr s) = (s \<noteq> [])"
| "truthy (JList xs) = (xs \<noteq> [])"
| "truthy (JDict kvs) = (kvs \<noteq> [])"

text \<open>
  The exceptions that occur. \<open>JSONDecodeError\<close> is \<open>json.JSONDecodeError\<close>, which is a
  \<open>ValueError\<close> and nothing else; \<open>RequestsJSONDecodeError\<close> is
  \<open>requests.exceptions.JSONDecodeError\<close>, which is both a \<open>ValueError\<close> and a
  \<open>RequestException\<close>. Which of the two \<open>response.json()\<close> raises on a body that is not
  JSON depends on the installed requests library (the second one from version 2.27 on),
  so a response carries the exception its \<open>json()\<close> raises.
\<close>

datatype exc =
    ConnectionError
  | Timeout
  | JSONDecodeError
  | RequestsJSONDecodeError
  | AttributeError
  | EOFError
  | KeyboardInterrupt
  | SystemExit int

fun is_RequestException :: "exc \<Rightarrow> bool" where
  "is_RequestException ConnectionError = True"
| "is_RequestException Timeout = True"
| "is_RequestException RequestsJSONDecodeError = True"
| "is_RequestException _ = False"

fun is_ValueError :: "exc \<Rightarrow> bool" where
  "is_ValueError JSONDecodeError = True"
| "is_ValueError RequestsJSONDecodeError = True"
| "is_ValueError _ = False"

fun is_Exception :: "exc \<Rightarrow> bool" where
  "is_Exception KeyboardInterrupt = False"
| "is_Exception (SystemExit _) = False"
| "is_Exception _ = True"

text \<open>
  \<open>d.get(key, default)\<close>: only a dict has the method; on any other object the attribute
  lookup raises \<open>AttributeError\<close>.
\<close>

fun py_get :: "json \<Rightarrow> string \<Rightarrow> json \<Rightarrow> exc + json" where
  "py_get (JDict kvs) key dflt = Inr (case map_of kvs key of None \<Rightarrow> dflt | Some v \<Rightarrow> v)"
| "py_get _ key dflt = Inl AttributeError"

text \<open>The decimal text of an integer, as an f-string renders it.\<close>

function show_nat :: "nat \<Rightarrow> string" where
  "show_nat n =
     (if n < 10 then [''0123456789'' ! n]
      else show_nat (n div 10) @ [''0123456789'' ! (n mod 10)])"
  by pat_completeness auto
termination
  by (relation "measure id") auto

declare show_nat.simps [simp del]

definition show_int :: "int \<Rightarrow> string" where
  "show_int i = (if i < 0 then CHR ''-'' # show_nat (nat (- i)) else show_nat (nat i))"

subsection \<open>Configuration\<close>

definition BACKEND_BASE_URL :: string where
  "BACKEND_BASE_URL = ''https://smartaccesscontrol-backend-production.up.railway.app/api''"

definition VERIFY_RFID_URL :: string where
  "VERIFY_RFID_URL = BACKEND_BASE_URL @ ''/rfid/verify''"

definition ACTIVATE_RFID_URL :: string where
  "ACTIVATE_RFID_URL = BACKEND_BASE_URL @ ''/rfid/activate''"

definition LOG_GRANTED_URL :: string where
  "LOG_GRANTED_URL = BACKEND_BASE_URL @ ''/access-logs/granted''"

definition LOG_DENIED_URL :: string where
  "LOG_DENIED_URL = BACKEND_BASE_URL @ ''/access-logs/denied''"

definition RELAY_PIN :: nat where
  "RELAY_PIN = 17"

definition UNLOCK_DURATION_SECONDS :: rat where
  "UNLOCK_DURATION_SECONDS = 5"

subsection \<open>Effects and state\<close>

datatype level = LOW | HIGH

text \<open>
  The lines the main thread prints, one constructor for each \<open>print\<close> statement of the
  script, carrying the values its f-string interpolates:
  \<^item> \<open>ReaderActive\<close>: "[INFO] RFID Reader is active. Waiting for scans (Ctrl+C to exit)."
  \<^item> \<open>Scanned uid\<close>: "[SCAN] RFID Scanned: {rfid_uid}"
  \<^item> \<open>ExitingGracefully\<close>: a newline, then "[INFO] Exiting RFID reader gracefully..."
  \<^item> \<open>UnexpectedError e\<close>: "[ERROR] Unexpected error: {e}"
  \<^item> \<open>ExitingDueToException e\<close>: "[ERROR] Exiting due to exception: {exc_type} - {exc_value}"
  \<^item> \<open>CleanupComplete\<close>: "[INFO] GPIO cleanup complete."
  \<^item> \<open>UnlockingDoor\<close>: "[INFO] Unlocking door..."
  \<^item> \<open>DoorLocked\<close>: "[INFO] Door locked."
  \<^item> \<open>FlashingRelay\<close>: "[WARN] Flashing relay for access denial."
  \<^item> \<open>FlashComplete\<close>: "[WARN] Access denial flash complete."
  \<^item> \<open>AccessDenied reason\<close>: "[DENIED] ACCESS DENIED: {reason}"
  \<^item> \<open>AttemptingActivation\<close>: "[INFO] RFID status is 'assigned'. Attempting to activate..."
  \<^item> \<open>Activated uid status\<close>: "[INFO] RFID {rfid_uid} successfully activated (status={newStatus})."
  \<^item> \<open>CouldNotActivate uid message\<close>: "[ERROR] Could not activate RFID {rfid_uid}: {data.get('message')}"
  \<^item> \<open>UnexpectedActivationStatus code\<close>: "[ERROR] Unexpected HTTP {response.status_code} activating RFID."
  \<^item> \<open>CannotConnectToActivate e\<close>: "[ERROR] Cannot connect to backend to activate RFID: {e}"
  \<^item> \<open>SendingVerification uid\<close>: "[INFO] Sending verification request for RFID={rfid_uid}..."
  \<^item> \<open>CannotConnect e\<close>: "[ERROR] Cannot connect to backend: {e}"
  \<^item> \<open>JsonParseError e\<close>: "[ERROR] JSON parse error: {e}"
  \<^item> \<open>FullResponse data\<close>: "[DEBUG] Full backend response: {data}"
  \<^item> \<open>Verified uid\<close>: "[INFO] RFID Verified: {rfid_uid}"
  \<^item> \<open>GuestInfo id name\<close>: "[INFO] Guest Info => ID={...}, Name={...}"
  \<^item> \<open>NoGuestInfo\<close>: "[WARN] No guest info provided by backend."
  \<^item> \<open>RoomInfo id number status check_in check_out\<close>:
    "[INFO] Room Info => ID={...}, Number={...}, Status={...}, check_in={...}, check_out={...}"
  \<^item> \<open>NoRoomInfo\<close>: "[WARN] No room info provided by backend."
  \<^item> \<open>UnexpectedStatus code\<close>: "[ERROR] Unexpected backend response: HTTP {response.status_code}"
\<close>

datatype message =
    ReaderActive
  | Scanned string
  | ExitingGracefully
  | UnexpectedError exc
  | ExitingDueToException exc
  | CleanupComplete
  | UnlockingDoor
  | DoorLocked
  | FlashingRelay
  | FlashComplete
  | AccessDenied json
  | AttemptingActivation
  | Activated string json
  | CouldNotActivate string json
  | UnexpectedActivationStatus int
  | CannotConnectToActivate exc
  | SendingVerification string
  | CannotConnect exc
  | JsonParseError exc
  | FullResponse json
  | Verified string
  | GuestInfo json json
  | NoGuestInfo
  | RoomInfo json json json json json
  | NoRoomInfo
  | UnexpectedStatus int

text \<open>
  The effects of the main thread, in the order they happen. \<open>Post\<close> is a
  \<open>session.post\<close> issued by the main thread (all of them use \<open>REQUEST_TIMEOUT\<close>).
  \<open>ThreadStart\<close> is the start of a daemon thread running \<open>log_worker\<close> for an
  endpoint, a payload and a success message; what that thread does afterwards (one POST
  and one line of output) runs concurrently and is not part of this sequence.
\<close>

datatype event =
    Print message
  | GpioSetwarnings bool
  | GpioSetmodeBCM
  | GpioSetup nat level
  | GpioOutput nat level
  | GpioCleanup
  | Sleep rat
  | Post string json
  | ThreadStart string json string

record response =
  status_code :: int
  json :: "exc + json"

text \<open>
  The backend as the main thread sees it: the outcome of its n-th \<open>session.post\<close>, for
  the URL and payload sent. \<open>Inl\<close> is an exception raised by the call.
\<close>

type_synonym backend = "nat \<Rightarrow> string \<Rightarrow> json \<Rightarrow> exc + response"

record state =
  relay :: level
  trace :: "event list"
  calls :: nat

definition emit :: "event \<Rightarrow> state \<Rightarrow> state" where
  "emit e st = st\<lparr>trace := trace st @ [e]\<rparr>"

definition print :: "message \<Rightarrow> state \<Rightarrow> state" where
  "print m st = emit (Print m) st"

text \<open>\<open>GPIO.output(pin, value)\<close>; the state follows the relay pin only.\<close>

definition gpio_output :: "nat \<Rightarrow> level \<Rightarrow> state \<Rightarrow> state" where
  "gpio_output p v st =
     emit (GpioOutput p v) (if p = RELAY_PIN then st\<lparr>relay := v\<rparr> else st)"

definition sleep :: "rat \<Rightarrow> state \<Rightarrow> state" where
  "sleep seconds st = emit (Sleep seconds) st"

definition session_post :: "backend \<Rightarrow> string \<Rightarrow> json \<Rightarrow> state \<Rightarrow> (exc + response) \<times> state" where
  "session_post net url payload st =
     (net (calls st) url payload, emit (Post url payload) (st\<lparr>calls := Suc (calls st)\<rparr>))"

subsection \<open>Helper functions\<close>

definition unlock_door :: "state \<Rightarrow> state" where
  "unlock_door st0 =
     (let st1 = print UnlockingDoor st0;
          st2 = gpio_output RELAY_PIN HIGH st1;
          st3 = sleep UNLOCK_DURATION_SECONDS st2;
          st4 = gpio_output RELAY_PIN LOW st3
      in print DoorLocked st4)"

text \<open>The body of \<open>for _ in range(flash_count)\<close>, run \<open>flash_count\<close> times.\<close>

fun flash_loop :: "nat \<Rightarrow> rat \<Rightarrow> state \<Rightarrow> state" where
  "flash_loop 0 interval st = st"
| "flash_loop (Suc n) interval st0 =
     (let st1 = gpio_output RELAY_PIN HIGH st0;
          st2 = sleep interval st1;
          st3 = gpio_output RELAY_PIN LOW st2;
          st4 = sleep interval st3
      in flash_loop n interval st4)"

definition flash_relay :: "nat \<Rightarrow> rat \<Rightarrow> state \<Rightarrow> state" where
  "flash_relay flash_count interval st0 =
     (let st1 = print FlashingRelay st0;
          st2 = flash_loop flash_count interval st1
      in print FlashComplete st2)"

text \<open>
  \<open>log_access_attempt\<close> builds \<open>log_worker\<close> and starts it on a daemon thread; the
  caller goes on at once.
\<close>

definition log_access_attempt :: "string \<Rightarrow> json \<Rightarrow> string \<Rightarrow> state \<Rightarrow> state" where
  "log_access_attempt endpoint payload success_message st =
     emit (ThreadStart endpoint payload success_message) st"

text \<open>
  \<open>flash_relay()\<close> is called with its defaults: 6 flashes, and an interval of 0.15
  seconds, taken as the decimal fraction it is written as.
\<close>

definition deny_access :: "string \<Rightarrow> json \<Rightarrow> state \<Rightarrow> state" where
  "deny_access rfid_uid reason st0 =
     (let st1 = print (AccessDenied reason) st0;
          st2 = flash_relay 6 (15 / 100) st1
      in log_access_attempt LOG_DENIED_URL (JDict [(''rfid_uid'', JStr rfid_uid)])
           ''Access denied logged successfully.'' st2)"

text \<open>
  The handler of the \<open>try\<close> in \<open>activate_rfid_if_assigned\<close>: a \<open>RequestException\<close>
  raised anywhere in the block is reported and becomes \<open>None\<close>; any other exception
  leaves the function.
\<close>

definition activate_except :: "exc \<Rightarrow> state \<Rightarrow> (exc + json) \<times> state" where
  "activate_except e st =
     (if is_RequestException e
      then (Inr JNull, print (CannotConnectToActivate e) st)
      else (Inl e, st))"

definition activate_rfid_if_assigned ::
  "backend \<Rightarrow> string \<Rightarrow> json \<Rightarrow> state \<Rightarrow> (exc + json) \<times> state" where
  "activate_rfid_if_assigned net rfid_uid rfid_status st0 =
     (if rfid_status \<noteq> JStr ''assigned'' then (Inr rfid_status, st0)
      else
        let st1 = print AttemptingActivation st0;
            (r, st2) = session_post net ACTIVATE_RFID_URL (JDict [(''rfid_uid'', JStr rfid_uid)]) st1
        in case r of
             Inl e \<Rightarrow> activate_except e st2
           | Inr response \<Rightarrow>
               if status_code response = 200 then
                 (case json response of
                    Inl e \<Rightarrow> activate_except e st2
                  | Inr data \<Rightarrow>
                      (case py_get data ''success'' JNull of
                         Inl e \<Rightarrow> activate_except e st2
                       | Inr success \<Rightarrow>
                           if truthy success then
                             (case py_get data ''data'' (JDict []) of
                                Inl e \<Rightarrow> activate_except e st2
                              | Inr updatedRFID \<Rightarrow>
                                  (case py_get updatedRFID ''status'' (JStr ''unknown'') of
                                     Inl e \<Rightarrow> activate_except e st2
                                   | Inr newStatus \<Rightarrow>
                                       (Inr newStatus,
                                        print (Activated rfid_uid newStatus) st2)))
                           else
                             (case py_get data ''message'' JNull of
                                Inl e \<Rightarrow> activate_except e st2
                              | Inr message \<Rightarrow>
                                  (Inr JNull,
                                   print (CouldNotActivate rfid_uid message) st2))))
               else
                 (Inr JNull,
                  print (UnexpectedActivationStatus (status_code response)) st2))"

text \<open>
  A statement that may raise: \<open>or_raise r st k\<close> leaves with the exception of \<open>r\<close> in
  the state reached so far, or goes on with the value of \<open>r\<close>.
\<close>

definition or_raise :: "exc + 'a \<Rightarrow> state \<Rightarrow> ('a \<Rightarrow> (exc + 'b) \<times> state) \<Rightarrow> (exc + 'b) \<times> state" where
  "or_raise r st k = (case r of Inl e \<Rightarrow> (Inl e, st) | Inr v \<Rightarrow> k v)"

text \<open>
  \<open>validate_rfid\<close> returns nothing; the result is \<open>Inr ()\<close> when it returns and \<open>Inl e\<close>
  when the exception \<open>e\<close> leaves it.
\<close>

definition validate_rfid :: "backend \<Rightarrow> string \<Rightarrow> state \<Rightarrow> (exc + unit) \<times> state" where
  "validate_rfid net rfid_uid st0 =
     (let st1 = print (SendingVerification rfid_uid) st0;
          (r, st2) = session_post net VERIFY_RFID_URL (JDict [(''rfid_uid'', JStr rfid_uid)]) st1
      in case r of
           Inl e \<Rightarrow>
             if is_RequestException e
             then (Inr (), print (CannotConnect e) st2)
             else (Inl e, st2)
         | Inr response \<Rightarrow>
             if status_code response = 200 then
               (case json response of
                  Inl e \<Rightarrow>
                    if is_ValueError e
                    then (Inr (),
                          deny_access rfid_uid (JStr ''Backend JSON parse error.'')
                            (print (JsonParseError e) st2))
                    else (Inl e, st2)
                | Inr data \<Rightarrow>
                    let st3 = print (FullResponse data) st2 in
                    or_raise (py_get data ''success'' JNull) st3 (\<lambda>success.
                    if \<not> truthy success then
                      or_raise (py_get data ''message'' (JStr ''Unknown backend error.'')) st3 (\<lambda>message.
                      (Inr (), deny_access rfid_uid message st3))
                    else
                    or_raise (py_get data ''data'' (JDict [])) st3 (\<lambda>var_data.
                    or_raise (py_get var_data ''rfid'' (JDict [])) st3 (\<lambda>rfid_data.
                    or_raise (py_get var_data ''guest'' (JDict [])) st3 (\<lambda>guest_info.
                    or_raise (py_get var_data ''room'' JNull) st3 (\<lambda>var_room.
                    let room_info = (if var_room \<noteq> JNull then var_room else JDict []);
                        st4 = print (Verified rfid_uid) st3
                    in
                    or_raise
                      (if truthy guest_info then
                         (case py_get guest_info ''id'' JNull of
                            Inl e \<Rightarrow> Inl e
                          | Inr gid \<Rightarrow>
                              (case py_get guest_info ''name'' JNull of
                                 Inl e \<Rightarrow> Inl e
                               | Inr gname \<Rightarrow>
                                   Inr (print (GuestInfo gid gname) st4)))
                       else Inr (print NoGuestInfo st4))
                      st4 (\<lambda>st5.
                    or_raise
                      (if truthy room_info then
                         (case py_get room_info ''id'' JNull of Inl e \<Rightarrow> Inl e | Inr rid \<Rightarrow>
                         (case py_get room_info ''room_number'' JNull of Inl e \<Rightarrow> Inl e | Inr rnum \<Rightarrow>
                         (case py_get room_info ''status'' JNull of Inl e \<Rightarrow> Inl e | Inr rstatus \<Rightarrow>
                         (case py_get room_info ''check_in'' JNull of Inl e \<Rightarrow> Inl e | Inr rin \<Rightarrow>
                         (case py_get room_info ''check_out'' JNull of Inl e \<Rightarrow> Inl e | Inr rout \<Rightarrow>
                            Inr (print (RoomInfo rid rnum rstatus rin rout) st5))))))
                       else Inr (print NoRoomInfo st5))
                      st5 (\<lambda>st6.
                    or_raise (py_get rfid_data ''status'' JNull) st6 (\<lambda>current_status.
                    case activate_rfid_if_assigned net rfid_uid current_status st6 of
                      (Inl e, st7) \<Rightarrow> (Inl e, st7)
                    | (Inr updated_status, st7) \<Rightarrow>
                        if updated_status = JNull then
                          (Inr (),
                           deny_access rfid_uid
                             (JStr (''RFID '' @ rfid_uid @ '' could not be activated.'')) st7)
                        else
                          let st8 = unlock_door st7 in
                          or_raise (if truthy guest_info then py_get guest_info ''id'' JNull
                                    else Inr JNull) st8 (\<lambda>guest_id.
                          (Inr (),
                           log_access_attempt LOG_GRANTED_URL
                             (JDict [(''rfid_uid'', JStr rfid_uid), (''guest_id'', guest_id)])
                             ''Access granted logged successfully.'' st8)))))))))))
             else if status_code response = 403 \<or> status_code response = 404 then
               (case json response of
                  Inl e \<Rightarrow>
                    if is_ValueError e
                    then (Inr (), deny_access rfid_uid (JStr ''No detail provided'') st2)
                    else (Inl e, st2)
                | Inr body \<Rightarrow>
                    or_raise (py_get body ''message'' (JStr ''No detail provided'')) st2 (\<lambda>reason.
                    (Inr (), deny_access rfid_uid reason st2)))
             else
               (Inr (),
                deny_access rfid_uid
                  (JStr (''Unexpected status '' @ show_int (status_code response)))
                  (print (UnexpectedStatus (status_code response)) st2)))"

subsection \<open>The entry loop and the process\<close>

text \<open>
  \<open>str.isspace\<close> on the characters of code point below 256 (a \<open>char\<close> is read as that
  code point; whitespace of higher code points is not represented), and \<open>str.strip()\<close>.
\<close>

definition py_isspace :: "char \<Rightarrow> bool" where
  "py_isspace c =
     (of_char c \<in> {9, 10, 11, 12, 13, 28, 29, 30, 31, 32, 133, 160 :: nat})"

definition py_strip :: "string \<Rightarrow> string" where
  "py_strip s = rev (dropWhile py_isspace (rev (dropWhile py_isspace s)))"

text \<open>
  What one call of \<open>input()\<close> does: it returns a line, or the interrupt signal arrives
  while it waits. When the list of these is used up the stream is at its end and
  \<open>input()\<close> raises \<open>EOFError\<close>. An interrupt is delivered at \<open>input()\<close> only.
\<close>

datatype stdin = Line string | Interrupt

text \<open>
  The \<open>while True\<close> loop of \<open>main\<close>: it never finishes normally; the result is the
  exception that leaves it.
\<close>

fun main_loop :: "backend \<Rightarrow> stdin list \<Rightarrow> state \<Rightarrow> exc \<times> state" where
  "main_loop net [] st = (EOFError, st)"
| "main_loop net (Interrupt # ins) st = (KeyboardInterrupt, st)"
| "main_loop net (Line l # ins) st =
     (let rfid_uid = py_strip l in
      if rfid_uid = [] then main_loop net ins st
      else
        case validate_rfid net rfid_uid
               (print (Scanned rfid_uid) st) of
          (Inl e, st') \<Rightarrow> (e, st')
        | (Inr _, st') \<Rightarrow> main_loop net ins st')"

text \<open>
  \<open>main\<close>: the handlers of the \<open>try\<close>, then \<open>finally: sys.exit(0)\<close>, which raises
  \<open>SystemExit(0)\<close> in place of whatever was in flight.
\<close>

definition main :: "backend \<Rightarrow> stdin list \<Rightarrow> state \<Rightarrow> exc \<times> state" where
  "main net ins st0 =
     (let st1 = print ReaderActive st0;
          (e, st2) = main_loop net ins st1;
          st3 = (if e = KeyboardInterrupt
                 then print ExitingGracefully st2
                 else if is_Exception e
                 then print (UnexpectedError e) st2
                 else st2)
      in (SystemExit 0, st3))"

definition GPIOHandler_enter :: "state \<Rightarrow> state" where
  "GPIOHandler_enter st0 =
     (let st1 = emit (GpioSetwarnings False) st0;
          st2 = emit GpioSetmodeBCM st1
      in emit (GpioSetup RELAY_PIN LOW) (st2\<lparr>relay := LOW\<rparr>))"

text \<open>\<open>__exit__\<close> returns \<open>None\<close>, so the exception it was called with goes on.\<close>

definition GPIOHandler_exit :: "exc option \<Rightarrow> state \<Rightarrow> state" where
  "GPIOHandler_exit exc_value st0 =
     (let st1 = emit GpioCleanup st0
      in case exc_value of
           Some e \<Rightarrow> print (ExitingDueToException e) st1
         | None \<Rightarrow> print CleanupComplete st1)"

text \<open>
  The exit status of the interpreter when an exception reaches the top level:
  the code of a \<open>SystemExit\<close>, and 1 after the traceback of anything else.
\<close>

fun exit_status :: "exc \<Rightarrow> int" where
  "exit_status (SystemExit n) = n"
| "exit_status _ = 1"

definition initial :: state where
  "initial = \<lparr>relay = LOW, trace = [], calls = 0\<rparr>"

text \<open>
  The script run as a program: \<open>with GPIOHandler(): main()\<close>. The result is the exit
  status and the final state.
\<close>

definition program :: "backend \<Rightarrow> stdin list \<Rightarrow> int \<times> state" where
  "program net ins =
     (let st1 = GPIOHandler_enter initial;
          (e, st2) = main net ins st1;
          st3 = GPIOHandler_exit (Some e) st2
      in (exit_status e, st3))"

subsection \<open>Observing a run\<close>

text \<open>The effects a step added: what the later trace has beyond the earlier one.\<close>

definition new_events :: "state \<Rightarrow> state \<Rightarrow> event list" where
  "new_events st st' = drop (length (trace st)) (trace st')"

definition validate_effects :: "backend \<Rightarrow> string \<Rightarrow> state \<Rightarrow> event list" where
  "validate_effects net uid st = new_events st (snd (validate_rfid net uid st))"

text \<open>What the actuator sees: the pin writes and the waits between them.\<close>

fun actuation :: "event list \<Rightarrow> event list" where
  "actuation [] = []"
| "actuation (GpioOutput p v # es) = GpioOutput p v # actuation es"
| "actuation (Sleep d # es) = Sleep d # actuation es"
| "actuation (_ # es) = actuation es"

text \<open>The access records handed to the logger: endpoint and payload of each thread started.\<close>

fun log_records :: "event list \<Rightarrow> (string \<times> json) list" where
  "log_records [] = []"
| "log_records (ThreadStart endpoint payload _ # es) = (endpoint, payload) # log_records es"
| "log_records (_ # es) = log_records es"

text \<open>The requests the main thread sent: URL and payload.\<close>

fun requests :: "event list \<Rightarrow> (string \<times> json) list" where
  "requests [] = []"
| "requests (Post url payload # es) = (url, payload) # requests es"
| "requests (_ # es) = requests es"

text \<open>The reasons \<open>deny_access\<close> printed.\<close>

fun denial_reasons :: "event list \<Rightarrow> json list" where
  "denial_reasons [] = []"
| "denial_reasons (Print (AccessDenied reason) # es) = reason # denial_reasons es"
| "denial_reasons (_ # es) = denial_reasons es"

text \<open>
  The time the relay pin is HIGH during a run of events that starts at level \<open>lv\<close>:
  the sum of the waits requested while the pin is HIGH.
\<close>

fun high_time :: "level \<Rightarrow> event list \<Rightarrow> rat" where
  "high_time lv [] = 0"
| "high_time lv (GpioOutput p v # es) = high_time (if p = RELAY_PIN then v else lv) es"
| "high_time lv (Sleep d # es) = (if lv = HIGH then d else 0) + high_time lv es"
| "high_time lv (_ # es) = high_time lv es"

definition flash_events :: "nat \<Rightarrow> rat \<Rightarrow> event list" where
  "flash_events n interval =
     concat (replicate n
       [GpioOutput RELAY_PIN HIGH, Sleep interval, GpioOutput RELAY_PIN LOW, Sleep interval])"

text \<open>The two things the actuator is ever asked to do.\<close>

definition denial_flash :: "event list" where
  "denial_flash = flash_events 6 (15 / 100)"

definition engagement :: "event list" where
  "engagement =
     [GpioOutput RELAY_PIN HIGH, Sleep UNLOCK_DURATION_SECONDS, GpioOutput RELAY_PIN LOW]"

text \<open>
  The outcome Denied: the denial flash on the actuator and nothing else, one record for
  the denied-log endpoint with the credential, and the reason given. The outcome Granted:
  one engagement of the actuator and nothing else, and one record for the granted-log
  endpoint with the credential and the guest id.
\<close>

definition denied :: "string \<Rightarrow> json \<Rightarrow> event list \<Rightarrow> bool" where
  "denied uid reason es \<longleftrightarrow>
     actuation es = denial_flash \<and>
     log_records es = [(LOG_DENIED_URL, JDict [(''rfid_uid'', JStr uid)])] \<and>
     denial_reasons es = [reason]"

definition granted :: "string \<Rightarrow> json \<Rightarrow> event list \<Rightarrow> bool" where
  "granted uid guest_id es \<longleftrightarrow>
     actuation es = engagement \<and>
     log_records es =
       [(LOG_GRANTED_URL, JDict [(''rfid_uid'', JStr uid), (''guest_id'', guest_id)])]"

text \<open>
  The guest id of a verification response, read from the \<open>guest\<close> entry of its data:
  the \<open>id\<close> of a guest object, null when there is no guest object or it has no id.
\<close>

fun guest_id_of :: "json option \<Rightarrow> json" where
  "guest_id_of (Some (JDict g)) = (case map_of g ''id'' of Some i \<Rightarrow> i | None \<Rightarrow> JNull)"
| "guest_id_of _ = JNull"

text \<open>An optional object: absent, null or a dict.\<close>

fun optional_object :: "json option \<Rightarrow> bool" where
  "optional_object None = True"
| "optional_object (Some JNull) = True"
| "optional_object (Some (JDict kvs)) = True"
| "optional_object _ = False"

text \<open>
  The answers to the activation request that the \<open>try\<close> of
  \<open>activate_rfid_if_assigned\<close> turns into \<open>None\<close>: a \<open>RequestException\<close> raised by the
  call, a status other than 200, a body that is a JSON object whose \<open>success\<close> is false,
  and a body whose parsing raises a \<open>RequestException\<close>.
\<close>

fun activation_failed :: "exc + response \<Rightarrow> bool" where
  "activation_failed (Inl e) = is_RequestException e"
| "activation_failed (Inr r) =
     (status_code r \<noteq> 200 \<or>
      (case json r of
         Inl e \<Rightarrow> is_RequestException e
       | Inr (JDict d) \<Rightarrow> map_of d ''success'' = Some (JBool False)
       | Inr _ \<Rightarrow> False))"

text \<open>The events of the helper functions, and of an activation.\<close>

definition unlock_events :: "event list" where
  "unlock_events =
     [Print UnlockingDoor, GpioOutput RELAY_PIN HIGH, Sleep UNLOCK_DURATION_SECONDS,
      GpioOutput RELAY_PIN LOW, Print DoorLocked]"

definition deny_events :: "string \<Rightarrow> json \<Rightarrow> event list" where
  "deny_events uid reason =
     [Print (AccessDenied reason), Print FlashingRelay] @ flash_events 6 (15 / 100) @
     [Print FlashComplete,
      ThreadStart LOG_DENIED_URL (JDict [(''rfid_uid'', JStr uid)])
        ''Access denied logged successfully.'']"

definition activate_events :: "backend \<Rightarrow> string \<Rightarrow> json \<Rightarrow> state \<Rightarrow> event list" where
  "activate_events net uid s st = new_events st (snd (activate_rfid_if_assigned net uid s st))"

text \<open>
  A property of the state a computation ends in, and the property that one call
  drives the actuator at most once: it is left alone, or flashed, or engaged, and
  is LOW after either of the two.
\<close>

definition ends_in :: "(state \<Rightarrow> bool) \<Rightarrow> 'a \<times> state \<Rightarrow> bool" where
  "ends_in P p = P (snd p)"

definition one_actuation :: "state \<Rightarrow> state \<Rightarrow> bool" where
  "one_actuation st st' \<longleftrightarrow>
     relay st' = (if actuation (new_events st st') = [] then relay st else LOW) \<and>
     actuation (new_events st st') \<in> {[], denial_flash, engagement}"

subsection \<open>Scenarios\<close>

text \<open>
  A backend that answers the requests of the main thread in order from a list, and is
  unreachable afterwards.
\<close>

definition scripted :: "(exc + response) list \<Rightarrow> backend" where
  "scripted rs n url payload = (if n < length rs then rs ! n else Inl ConnectionError)"

definition respond :: "int \<Rightarrow> json \<Rightarrow> exc + response" where
  "respond code body = Inr \<lparr>status_code = code, json = Inr body\<rparr>"

definition verified_with :: "json \<Rightarrow> exc + response" where
  "verified_with d = respond 200 (JDict [(''success'', JBool True), (''data'', d)])"

definition scenario_A1 :: backend where
  "scenario_A1 = scripted
     [verified_with (JDict [(''rfid'', JDict [(''status'', JStr ''active'')]),
                            (''guest'', JDict [(''id'', JInt 7), (''name'', JStr ''Jo'')])])]"

definition scenario_B2 :: backend where
  "scenario_B2 = scripted
     [verified_with (JDict [(''rfid'', JDict [(''status'', JStr ''assigned'')])]),
      respond 200 (JDict [(''success'', JBool True), (''data'', JDict [(''status'', JStr ''active'')])])]"

definition scenario_C3 :: backend where
  "scenario_C3 = scripted [respond 403 (JDict [(''message'', JStr ''expired'')])]"

definition scenario_D4 :: backend where
  "scenario_D4 = scripted [Inl Timeout]"

definition scenario_refused :: backend where
  "scenario_refused = scripted [respond 200 (JDict [(''success'', JBool False)])]"

definition scenario_not_json :: backend where
  "scenario_not_json = scripted [Inr \<lparr>status_code = 200, json = Inl JSONDecodeError\<rparr>]"

definition scenario_not_found :: backend where
  "scenario_not_found = scripted [Inr \<lparr>status_code = 404, json = Inl JSONDecodeError\<rparr>]"

definition scenario_activation_not_json :: backend where
  "scenario_activation_not_json = scripted
     [verified_with (JDict [(''rfid'', JDict [(''status'', JStr ''assigned'')])]),
      Inr \<lparr>status_code = 200, json = Inl JSONDecodeError\<rparr>]"

definition scenario_no_status :: backend where
  "scenario_no_status = scripted [verified_with (JDict [(''rfid'', JDict [])])]"

definition scenario_activated_no_status :: backend where
  "scenario_activated_no_status = scripted
     [verified_with (JDict [(''rfid'', JDict [(''status'', JStr ''assigned'')])]),
      respond 200 (JDict [(''success'', JBool True)])]"

subsection \<open>How each operation changes the state\<close>

lemma emit_sel [simp]:
  "relay (emit e st) = relay st"
  "trace (emit e st) = trace st @ [e]"
  "calls (emit e st) = calls st"
  by (simp_all add: emit_def)

lemma print_sel [simp]:
  "relay (print m st) = relay st"
  "trace (print m st) = trace st @ [Print m]"
  "calls (print m st) = calls st"
  by (simp_all add: print_def)

lemma log_access_attempt_sel [simp]:
  "relay (log_access_attempt u p m st) = relay st"
  "trace (log_access_attempt u p m st) = trace st @ [ThreadStart u p m]"
  "calls (log_access_attempt u p m st) = calls st"
  by (simp_all add: log_access_attempt_def)

lemma session_post_sel [simp]:
  "fst (session_post net url p st) = net (calls st) url p"
  "relay (snd (session_post net url p st)) = relay st"
  "trace (snd (session_post net url p st)) = trace st @ [Post url p]"
  "calls (snd (session_post net url p st)) = Suc (calls st)"
  by (simp_all add: session_post_def)

lemma flash_loop_effect:
  "flash_loop n i st =
     st\<lparr>relay := (if n = 0 then relay st else LOW), trace := trace st @ flash_events n i\<rparr>"
proof (induction n arbitrary: st)
  case 0
  show ?case by (simp add: flash_events_def)
next
  case (Suc n)
  show ?case
    by (simp add: Suc.IH flash_events_def gpio_output_def sleep_def emit_def Let_def)
qed

lemma flash_relay_sel [simp]:
  "relay (flash_relay n i st) = (if n = 0 then relay st else LOW)"
  "trace (flash_relay n i st) = trace st @ Print FlashingRelay # flash_events n i @ [Print FlashComplete]"
  "calls (flash_relay n i st) = calls st"
  by (simp_all add: flash_relay_def flash_loop_effect Let_def)

lemma deny_access_sel [simp]:
  "relay (deny_access uid reason st) = LOW"
  "trace (deny_access uid reason st) = trace st @ deny_events uid reason"
  "calls (deny_access uid reason st) = calls st"
  by (simp_all add: deny_access_def deny_events_def Let_def)

lemma unlock_door_sel [simp]:
  "relay (unlock_door st) = LOW"
  "trace (unlock_door st) = trace st @ unlock_events"
  "calls (unlock_door st) = calls st"
  by (simp_all add: unlock_door_def unlock_events_def gpio_output_def sleep_def Let_def)

lemma or_raise_simps [simp]:
  "or_raise (Inl e) st k = (Inl e, st)"
  "or_raise (Inr v) st k = k v"
  by (simp_all add: or_raise_def)

lemma or_raise_cong [cong]:
  "r = r' \<Longrightarrow> st = st' \<Longrightarrow> or_raise r st k = or_raise r' st' k"
  by simp

subsection \<open>Observations of appended events\<close>

lemma actuation_append [simp]: "actuation (xs @ ys) = actuation xs @ actuation ys"
  by (induction xs rule: actuation.induct) simp_all

lemma log_records_append [simp]: "log_records (xs @ ys) = log_records xs @ log_records ys"
  by (induction xs rule: log_records.induct) simp_all

lemma requests_append [simp]: "requests (xs @ ys) = requests xs @ requests ys"
  by (induction xs rule: requests.induct) simp_all

lemma denial_reasons_append [simp]:
  "denial_reasons (xs @ ys) = denial_reasons xs @ denial_reasons ys"
  by (induction xs rule: denial_reasons.induct) simp_all

lemma flash_events_obs [simp]:
  "actuation (flash_events n i) = flash_events n i"
  "log_records (flash_events n i) = []"
  "requests (flash_events n i) = []"
  "denial_reasons (flash_events n i) = []"
  by (induction n) (simp_all add: flash_events_def)

lemma deny_events_obs [simp]:
  "actuation (deny_events uid reason) = denial_flash"
  "log_records (deny_events uid reason) = [(LOG_DENIED_URL, JDict [(''rfid_uid'', JStr uid)])]"
  "requests (deny_events uid reason) = []"
  "denial_reasons (deny_events uid reason) = [reason]"
  by (simp_all add: deny_events_def denial_flash_def)

lemma unlock_events_obs [simp]:
  "actuation unlock_events = engagement"
  "log_records unlock_events = []"
  "requests unlock_events = []"
  "denial_reasons unlock_events = []"
  by (simp_all add: unlock_events_def engagement_def)

lemma nonempty_patterns [simp]: "denial_flash \<noteq> []" "engagement \<noteq> []"
  by (simp_all add: denial_flash_def engagement_def flash_events_def numeral_eq_Suc)

lemma new_events_append [simp]: "drop (length xs) (xs @ es) = es"
  by simp

lemma high_time_actuation: "high_time lv (actuation es) = high_time lv es"
  by (induction lv es rule: high_time.induct) simp_all

lemma high_time_denial_flash: "high_time LOW denial_flash = 9 / 10"
  by (simp add: denial_flash_def flash_events_def numeral_eq_Suc)

lemma high_time_engagement: "high_time LOW engagement = UNLOCK_DURATION_SECONDS"
  by (simp add: engagement_def)

text \<open>A denial never engages the door: the flash keeps the relay HIGH for 0.9 s in all.\<close>

lemma denied_not_engaged:
  assumes "denied uid reason es"
  shows "actuation es \<noteq> engagement" and "high_time LOW es = 9 / 10"
proof -
  from assms have a: "actuation es = denial_flash" by (simp add: denied_def)
  have "length denial_flash \<noteq> length engagement"
    by (simp add: denial_flash_def engagement_def flash_events_def numeral_eq_Suc)
  with a show "actuation es \<noteq> engagement" by auto
  from a show "high_time LOW es = 9 / 10"
    using high_time_actuation [of LOW es] by (simp add: high_time_denial_flash)
qed

subsection \<open>Activation\<close>

lemma activate_sel:
  "relay (snd (activate_rfid_if_assigned net uid s st)) = relay st"
  "trace (snd (activate_rfid_if_assigned net uid s st)) = trace st @ activate_events net uid s st"
  "actuation (activate_events net uid s st) = []"
  "log_records (activate_events net uid s st) = []"
  "denial_reasons (activate_events net uid s st) = []"
  by (simp_all add: activate_events_def new_events_def activate_rfid_if_assigned_def
      activate_except_def Let_def split_beta split: sum.splits)

subsection \<open>Rules for the final state of a computation\<close>

lemma ends_in_or_raise:
  "\<lbrakk>\<And>e. r = Inl e \<Longrightarrow> ends_in P (Inl e :: exc + 'b, st'); \<And>v. r = Inr v \<Longrightarrow> ends_in P (k v)\<rbrakk>
   \<Longrightarrow> ends_in P (or_raise r st' k :: (exc + 'b) \<times> state)"
  by (cases r) simp_all

lemma ends_in_if: "\<lbrakk>c \<Longrightarrow> ends_in P a; \<not> c \<Longrightarrow> ends_in P b\<rbrakk> \<Longrightarrow> ends_in P (if c then a else b)"
  by simp

lemma ends_in_case_sum:
  "\<lbrakk>\<And>e. r = Inl e \<Longrightarrow> ends_in P (f e); \<And>v. r = Inr v \<Longrightarrow> ends_in P (g v)\<rbrakk>
   \<Longrightarrow> ends_in P (case r of Inl e \<Rightarrow> f e | Inr v \<Rightarrow> g v)"
  by (cases r) simp_all

lemma ends_in_case_prod:
  "ends_in P (f (fst p) (snd p)) \<Longrightarrow> ends_in P (case p of (a, b) \<Rightarrow> f a b)"
  by (cases p) simp

lemma ends_in_Let: "ends_in P (f x) \<Longrightarrow> ends_in P (Let x f)"
  by simp

text \<open>The two reporting blocks of \<open>validate_rfid\<close> print one line or raise.\<close>

lemma guest_block:
  assumes "(if truthy g
            then (case py_get g ''id'' JNull of
                    Inl e \<Rightarrow> Inl e
                  | Inr gid \<Rightarrow>
                      (case py_get g ''name'' JNull of
                         Inl e \<Rightarrow> Inl e
                       | Inr gname \<Rightarrow> Inr (print (GuestInfo gid gname) st)))
            else Inr (print NoGuestInfo st)) = Inr st'"
  shows "\<exists>m. st' = print m st"
  using assms by (auto split: if_splits sum.splits)

lemma room_block:
  assumes "(if truthy r then
             (case py_get r ''id'' JNull of Inl e \<Rightarrow> Inl e | Inr rid \<Rightarrow>
             (case py_get r ''room_number'' JNull of Inl e \<Rightarrow> Inl e | Inr rnum \<Rightarrow>
             (case py_get r ''status'' JNull of Inl e \<Rightarrow> Inl e | Inr rstatus \<Rightarrow>
             (case py_get r ''check_in'' JNull of Inl e \<Rightarrow> Inl e | Inr rin \<Rightarrow>
             (case py_get r ''check_out'' JNull of Inl e \<Rightarrow> Inl e | Inr rout \<Rightarrow>
                Inr (print (RoomInfo rid rnum rstatus rin rout) st))))))
           else Inr (print NoRoomInfo st)) = Inr st'"
  shows "\<exists>m. st' = print m st"
  using assms by (auto split: if_splits sum.splits)

text \<open>
  Whatever the backend answers and however the call ends, \<open>validate_rfid\<close> drives the
  actuator at most once.
\<close>

lemma validate_one_actuation: "ends_in (one_actuation st) (validate_rfid net uid st)"
  unfolding validate_rfid_def
  apply (intro ends_in_Let ends_in_case_prod ends_in_case_sum ends_in_if ends_in_or_raise)
  apply (clarsimp simp: ends_in_def one_actuation_def new_events_def activate_sel
       dest!: guest_block room_block)+
  done

lemma validate_relay_low:
  assumes "relay st = LOW"
  shows "relay (snd (validate_rfid net uid st)) = LOW"
  using validate_one_actuation [of st net uid] assms
  by (simp add: ends_in_def one_actuation_def split: if_splits)

lemma validate_high_time:
  "high_time LOW (validate_effects net uid st) \<le> UNLOCK_DURATION_SECONDS"
proof -
  have "actuation (validate_effects net uid st) \<in> {[], denial_flash, engagement}"
    using validate_one_actuation [of st net uid]
    by (simp add: ends_in_def one_actuation_def validate_effects_def)
  then have "high_time LOW (actuation (validate_effects net uid st)) \<le> UNLOCK_DURATION_SECONDS"
    by (auto simp: high_time_denial_flash high_time_engagement UNLOCK_DURATION_SECONDS_def)
  then show ?thesis by (simp add: high_time_actuation)
qed

text \<open>The loop keeps the relay LOW between scans.\<close>

lemma main_loop_relay_low:
  "relay st = LOW \<Longrightarrow> relay (snd (main_loop net ins st)) = LOW"
proof (induction ins arbitrary: st)
  case Nil
  then show ?case by simp
next
  case (Cons i ins)
  show ?case
  proof (cases i)
    case Interrupt
    with Cons.prems show ?thesis by simp
  next
    case (Line l)
    show ?thesis
    proof (cases "py_strip l = []")
      case True
      with Line Cons show ?thesis by simp
    next
      case False
      let ?r = "validate_rfid net (py_strip l) (print (Scanned (py_strip l)) st)"
      have low: "relay (snd ?r) = LOW"
        using Cons.prems by (intro validate_relay_low) simp
      show ?thesis
      proof (cases "fst ?r")
        case (Inl e)
        with Line False low show ?thesis by (simp add: split_beta Let_def)
      next
        case (Inr u)
        with Line False Cons.IH [OF low] show ?thesis by (simp add: split_beta Let_def)
      qed
    qed
  qed
qed

lemma py_strip_blank:
  assumes "\<forall>c \<in> set l. py_isspace c"
  shows "py_strip l = []"
  using assms by (auto simp: py_strip_def dest: set_dropWhileD)

subsection \<open>Running the scenarios\<close>

lemma scripted_simps [simp]:
  "scripted (r # rs) 0 url p = r"
  "scripted (r # rs) (Suc n) url p = scripted rs n url p"
  "scripted [] n url p = Inl ConnectionError"
  by (simp_all add: scripted_def)

lemma initial_sel [simp]: "calls initial = 0" "trace initial = []" "relay initial = LOW"
  by (simp_all add: initial_def)

lemma py_strip_examples [simp]:
  "py_strip ''B2'' = ''B2''" "py_strip ''A1'' = ''A1''" "py_strip ''  '' = []"
  by (simp_all add: py_strip_def py_isspace_def)

lemmas run_simps = validate_rfid_def validate_effects_def new_events_def session_post_def Let_def

text \<open>The ways an activation fails that \<open>activate_rfid_if_assigned\<close> catches.\<close>

lemma activation_failed_cases:
  assumes "activation_failed a"
  obtains e where "a = Inl e" "is_RequestException e"
    | r where "a = Inr r" "status_code r \<noteq> 200"
    | r e where "a = Inr r" "status_code r = 200" "json r = Inl e" "is_RequestException e"
    | r ad where "a = Inr r" "status_code r = 200" "json r = Inr (JDict ad)"
        "map_of ad ''success'' = Some (JBool False)"
proof (cases a)
  case (Inl e)
  with assms that(1) show ?thesis by simp
next
  case (Inr r)
  show ?thesis
  proof (cases "status_code r = 200")
    case False
    with Inr that(2) show ?thesis by simp
  next
    case True
    with assms Inr that(3,4) show ?thesis
      by (auto split: sum.splits json.splits)
  qed
qed

section \<open>The claims\<close>

subsection \<open>C1: an assigned credential is activated before the door is unlocked\<close>

text \<open>
  The part of claim C1 that holds. A verified credential whose status is "assigned"
  leads to one activation request, sent after the verify request. When the activation
  fails in a way the handler of \<open>activate_rfid_if_assigned\<close> catches (a
  \<open>RequestException\<close> raised by the call or by parsing the body, a status other than 200,
  a payload with \<open>success: false\<close>), the outcome is Denied with the reason
  "RFID (uid) could not be activated." and the door is not engaged.
\<close>

lemma assigned_activation_failure_denied:
  assumes "net (calls st) VERIFY_RFID_URL (JDict [(''rfid_uid'', JStr uid)]) = Inr response"
    and "status_code response = 200"
    and "json response = Inr (JDict d)"
    and "map_of d ''success'' = Some (JBool True)"
    and "map_of d ''data'' = Some (JDict vd)"
    and "map_of vd ''rfid'' = Some (JDict rd)"
    and "map_of rd ''status'' = Some (JStr ''assigned'')"
    and "optional_object (map_of vd ''guest'')"
    and "optional_object (map_of vd ''room'')"
    and "activation_failed
           (net (Suc (calls st)) ACTIVATE_RFID_URL (JDict [(''rfid_uid'', JStr uid)]))"
  shows "fst (validate_rfid net uid st) = Inr () \<and>
         requests (validate_effects net uid st) =
           [(VERIFY_RFID_URL, JDict [(''rfid_uid'', JStr uid)]),
            (ACTIVATE_RFID_URL, JDict [(''rfid_uid'', JStr uid)])] \<and>
         denied uid (JStr (''RFID '' @ uid @ '' could not be activated.''))
           (validate_effects net uid st)"
proof -
  note path = assms(1-7)
  note defs = run_simps activate_rfid_if_assigned_def activate_except_def denied_def
  from assms(10) show ?thesis
  proof (cases rule: activation_failed_cases)
    case 1
    from assms(8,9) show ?thesis
      by (elim optional_object.elims(2)) (use path 1 in \<open>simp_all add: defs\<close>)
  next
    case 2
    from assms(8,9) show ?thesis
      by (elim optional_object.elims(2)) (use path 2 in \<open>simp_all add: defs\<close>)
  next
    case 3
    from assms(8,9) show ?thesis
      by (elim optional_object.elims(2)) (use path 3 in \<open>simp_all add: defs\<close>)
  next
    case 4
    from assms(8,9) show ?thesis
      by (elim optional_object.elims(2)) (use path 4 in \<open>simp_all add: defs\<close>)
  qed
qed

text \<open>
  The scenario B2 of the specification: the activation succeeds, the door is engaged,
  and nothing reaches the actuator before the activation request has been sent.
\<close>

lemma activation_precedes_engagement:
  "fst (validate_rfid scenario_B2 ''B2'' initial) = Inr () \<and>
   granted ''B2'' JNull (validate_effects scenario_B2 ''B2'' initial) \<and>
   requests (validate_effects scenario_B2 ''B2'' initial) =
     [(VERIFY_RFID_URL, JDict [(''rfid_uid'', JStr ''B2'')]),
      (ACTIVATE_RFID_URL, JDict [(''rfid_uid'', JStr ''B2'')])] \<and>
   actuation (takeWhile (\<lambda>e. e \<noteq> Post ACTIVATE_RFID_URL (JDict [(''rfid_uid'', JStr ''B2'')]))
     (validate_effects scenario_B2 ''B2'' initial)) = []"
  by (simp add: run_simps activate_rfid_if_assigned_def granted_def
      scenario_B2_def verified_with_def respond_def)

text \<open>
  Claim C1, where the code departs from it. The credential B2 is verified with status
  "assigned", and the activation answers 200 with a body that is not JSON, under a
  requests library whose \<open>json()\<close> raises \<open>json.JSONDecodeError\<close>. That exception is a
  \<open>ValueError\<close> and not a \<open>RequestException\<close>, so the handler in
  \<open>activate_rfid_if_assigned\<close> does not catch it (the two \<open>json()\<close> calls of
  \<open>validate_rfid\<close> do catch \<open>ValueError\<close>). The exception leaves \<open>validate_rfid\<close> after
  the two requests: there is no flash, no Denied record and no denial reason, so the
  outcome is not Denied; the door is not engaged either.
\<close>

theorem activation_parse_error_escapes:
  "fst (validate_rfid scenario_activation_not_json ''B2'' initial) = Inl JSONDecodeError \<and>
   requests (validate_effects scenario_activation_not_json ''B2'' initial) =
     [(VERIFY_RFID_URL, JDict [(''rfid_uid'', JStr ''B2'')]),
      (ACTIVATE_RFID_URL, JDict [(''rfid_uid'', JStr ''B2'')])] \<and>
   actuation (validate_effects scenario_activation_not_json ''B2'' initial) = [] \<and>
   log_records (validate_effects scenario_activation_not_json ''B2'' initial) = [] \<and>
   denial_reasons (validate_effects scenario_activation_not_json ''B2'' initial) = [] \<and>
   \<not> denied ''B2'' (JStr ''RFID B2 could not be activated.'')
       (validate_effects scenario_activation_not_json ''B2'' initial)"
  by (simp add: run_simps activate_rfid_if_assigned_def activate_except_def denied_def
      scenario_activation_not_json_def verified_with_def respond_def)

text \<open>The escaped exception ends the entry loop: the next line is never read.\<close>

lemma activation_parse_error_ends_loop:
  "fst (main_loop scenario_activation_not_json [Line ''B2'', Line ''A1''] initial)
     = JSONDecodeError \<and>
   requests (trace (snd (main_loop scenario_activation_not_json [Line ''B2'', Line ''A1''] initial))) =
     [(VERIFY_RFID_URL, JDict [(''rfid_uid'', JStr ''B2'')]),
      (ACTIVATE_RFID_URL, JDict [(''rfid_uid'', JStr ''B2'')])]"
  by (simp add: run_simps activate_rfid_if_assigned_def activate_except_def
      scenario_activation_not_json_def verified_with_def respond_def)

subsection \<open>C2: a transport failure of the verify request is inconclusive\<close>

text \<open>
  Claim C2. When the verify request fails at the transport level (the call raises a
  \<open>RequestException\<close>: unreachable backend, timeout, connection error),
  \<open>validate_rfid\<close> returns, and all it has done is print two diagnostic lines around
  the request it tried: the relay is not touched (no engagement, no flash) and no logging
  thread is started (neither a Granted nor a Denied record).
\<close>

theorem verify_transport_failure_inconclusive:
  assumes "net (calls st) VERIFY_RFID_URL (JDict [(''rfid_uid'', JStr uid)]) = Inl e"
    and "is_RequestException e"
  shows "fst (validate_rfid net uid st) = Inr () \<and>
         relay (snd (validate_rfid net uid st)) = relay st \<and>
         validate_effects net uid st =
           [Print (SendingVerification uid),
            Post VERIFY_RFID_URL (JDict [(''rfid_uid'', JStr uid)]),
            Print (CannotConnect e)] \<and>
         actuation (validate_effects net uid st) = [] \<and>
         log_records (validate_effects net uid st) = []"
  using assms by (simp add: run_simps)

text \<open>The scenario D4 of the specification: the verify call times out.\<close>

theorem verify_transport_failure_inconclusive_witness:
  "is_RequestException Timeout \<and>
   fst (validate_rfid scenario_D4 ''D4'' initial) = Inr () \<and>
   relay (snd (validate_rfid scenario_D4 ''D4'' initial)) = LOW \<and>
   validate_effects scenario_D4 ''D4'' initial =
     [Print (SendingVerification ''D4''),
      Post VERIFY_RFID_URL (JDict [(''rfid_uid'', JStr ''D4'')]),
      Print (CannotConnect Timeout)] \<and>
   actuation (validate_effects scenario_D4 ''D4'' initial) = [] \<and>
   log_records (validate_effects scenario_D4 ''D4'' initial) = []"
proof -
  have h1: "scenario_D4 (calls initial) VERIFY_RFID_URL (JDict [(''rfid_uid'', JStr ''D4'')])
              = Inl Timeout"
    by (simp add: scenario_D4_def)
  have h2: "is_RequestException Timeout" by simp
  show ?thesis
    using h1 h2
      verify_transport_failure_inconclusive
        [where net = scenario_D4 and st = initial and uid = "''D4''" and e = Timeout]
    by simp
qed

subsection \<open>C3: a refused verification is denied\<close>

text \<open>
  Claim C3, amended. When verify answers 200 with a JSON object whose \<open>success\<close> is
  false, the outcome is Denied: \<open>validate_rfid\<close> returns, the actuator shows the denial
  flash and nothing else (the door is not engaged), one Denied record with the credential
  is handed to the logger, and the reason is the \<open>message\<close> of the body when it has
  one, else the default, whose text is "Unknown backend error." (capital U, final full
  stop).
\<close>

theorem refused_verification_denied:
  assumes "net (calls st) VERIFY_RFID_URL (JDict [(''rfid_uid'', JStr uid)]) = Inr response"
    and "status_code response = 200"
    and "json response = Inr (JDict d)"
    and "map_of d ''success'' = Some (JBool False)"
  shows "fst (validate_rfid net uid st) = Inr () \<and>
         denied uid (case map_of d ''message'' of
                       Some m \<Rightarrow> m | None \<Rightarrow> JStr ''Unknown backend error.'')
           (validate_effects net uid st)"
  using assms by (simp add: run_simps denied_def)

theorem refused_verification_denied_witness:
  "fst (validate_rfid scenario_refused ''A1'' initial) = Inr () \<and>
   denied ''A1'' (JStr ''Unknown backend error.'')
     (validate_effects scenario_refused ''A1'' initial)"
proof -
  let ?response = "\<lparr>status_code = 200, json = Inr (JDict [(''success'', JBool False)])\<rparr>"
  have h1: "scenario_refused (calls initial) VERIFY_RFID_URL (JDict [(''rfid_uid'', JStr ''A1'')])
              = Inr ?response"
    by (simp add: scenario_refused_def respond_def)
  have h2: "status_code ?response = 200" by simp
  have h3: "json ?response = Inr (JDict [(''success'', JBool False)])" by simp
  have h4: "map_of [(''success'', JBool False)] ''success'' = Some (JBool False)" by simp
  show ?thesis
    using refused_verification_denied
      [where net = scenario_refused and st = initial and uid = "''A1''", OF h1 h2 h3 h4]
    by simp
qed

text \<open>
  Claim C3 as stated names the default reason "unknown backend error"; for a refusal
  without a message the reason printed is not that text.
\<close>

theorem refused_default_reason_counterexample:
  "denial_reasons (validate_effects scenario_refused ''A1'' initial) =
     [JStr ''Unknown backend error.''] \<and>
   \<not> denied ''A1'' (JStr ''unknown backend error'')
       (validate_effects scenario_refused ''A1'' initial)"
  by (simp add: run_simps denied_def scenario_refused_def respond_def)

subsection \<open>C4: a settled credential is granted\<close>

text \<open>
  Claim C4. When verify answers 200 with \<open>success: true\<close> and the credential's status is
  a value other than "assigned" ("active" or anything else that is present and not
  null), guest and room being optional objects, no activation is attempted and the
  outcome is Granted: \<open>validate_rfid\<close> returns; the actuator sees exactly HIGH, a wait of
  \<open>UNLOCK_DURATION_SECONDS\<close> = 5 seconds, LOW; and one Granted record is handed to the
  logger, carrying the credential and the guest's id when there is a guest object with
  an id, null otherwise.
\<close>

theorem settled_credential_granted:
  assumes "net (calls st) VERIFY_RFID_URL (JDict [(''rfid_uid'', JStr uid)]) = Inr response"
    and "status_code response = 200"
    and "json response = Inr (JDict d)"
    and "map_of d ''success'' = Some (JBool True)"
    and "map_of d ''data'' = Some (JDict vd)"
    and "map_of vd ''rfid'' = Some (JDict rd)"
    and "map_of rd ''status'' = Some s"
    and "s \<noteq> JNull"
    and "s \<noteq> JStr ''assigned''"
    and "optional_object (map_of vd ''guest'')"
    and "optional_object (map_of vd ''room'')"
  shows "fst (validate_rfid net uid st) = Inr () \<and>
         granted uid (guest_id_of (map_of vd ''guest'')) (validate_effects net uid st) \<and>
         requests (validate_effects net uid st) =
           [(VERIFY_RFID_URL, JDict [(''rfid_uid'', JStr uid)])] \<and>
         engagement = [GpioOutput RELAY_PIN HIGH, Sleep 5, GpioOutput RELAY_PIN LOW] \<and>
         relay (snd (validate_rfid net uid st)) = LOW"
proof -
  note path = assms(1-9)
  have e: "engagement = [GpioOutput RELAY_PIN HIGH, Sleep 5, GpioOutput RELAY_PIN LOW]"
    by (simp add: engagement_def UNLOCK_DURATION_SECONDS_def)
  from assms(10) have
    "fst (validate_rfid net uid st) = Inr () \<and>
     granted uid (guest_id_of (map_of vd ''guest'')) (validate_effects net uid st) \<and>
     requests (validate_effects net uid st) =
       [(VERIFY_RFID_URL, JDict [(''rfid_uid'', JStr uid)])] \<and>
     relay (snd (validate_rfid net uid st)) = LOW"
  proof (cases rule: optional_object.elims(2))
    case 1
    from assms(11) show ?thesis
      by (cases rule: optional_object.elims(2))
         (use path 1 in \<open>simp_all add: run_simps activate_rfid_if_assigned_def granted_def\<close>)
  next
    case 2
    from assms(11) show ?thesis
      by (cases rule: optional_object.elims(2))
         (use path 2 in \<open>simp_all add: run_simps activate_rfid_if_assigned_def granted_def\<close>)
  next
    case (3 g)
    from assms(11) show ?thesis
      by (cases rule: optional_object.elims(2))
         (use path 3 in \<open>simp_all add: run_simps activate_rfid_if_assigned_def granted_def
            split: option.splits\<close>)
  qed
  with e show ?thesis by simp
qed

text \<open>The scenario A1 of the specification: an active credential of guest 7.\<close>

theorem settled_credential_granted_witness:
  "fst (validate_rfid scenario_A1 ''A1'' initial) = Inr () \<and>
   granted ''A1'' (JInt 7) (validate_effects scenario_A1 ''A1'' initial) \<and>
   requests (validate_effects scenario_A1 ''A1'' initial) =
     [(VERIFY_RFID_URL, JDict [(''rfid_uid'', JStr ''A1'')])] \<and>
   relay (snd (validate_rfid scenario_A1 ''A1'' initial)) = LOW"
proof -
  let ?rd = "[(''status'', JStr ''active'')]"
  let ?vd = "[(''rfid'', JDict ?rd), (''guest'', JDict [(''id'', JInt 7), (''name'', JStr ''Jo'')])]"
  let ?d = "[(''success'', JBool True), (''data'', JDict ?vd)]"
  let ?response = "\<lparr>status_code = 200, json = Inr (JDict ?d)\<rparr>"
  have h1: "scenario_A1 (calls initial) VERIFY_RFID_URL (JDict [(''rfid_uid'', JStr ''A1'')])
              = Inr ?response"
    by (simp add: scenario_A1_def verified_with_def respond_def)
  have h2: "status_code ?response = 200" by simp
  have h3: "json ?response = Inr (JDict ?d)" by simp
  have h4: "map_of ?d ''success'' = Some (JBool True)" by simp
  have h5: "map_of ?d ''data'' = Some (JDict ?vd)" by simp
  have h6: "map_of ?vd ''rfid'' = Some (JDict ?rd)" by simp
  have h7: "map_of ?rd ''status'' = Some (JStr ''active'')" by simp
  have h8: "JStr ''active'' \<noteq> JNull" by simp
  have h9: "JStr ''active'' \<noteq> JStr ''assigned''" by simp
  have h10: "optional_object (map_of ?vd ''guest'')" by simp
  have h11: "optional_object (map_of ?vd ''room'')" by simp
  show ?thesis
    using settled_credential_granted
      [where net = scenario_A1 and st = initial and uid = "''A1''",
       OF h1 h2 h3 h4 h5 h6 h7 h8 h9 h10 h11]
    by simp
qed

subsection \<open>C5: the relay rests LOW\<close>

text \<open>
  Claim C5. The relay is LOW after \<open>GPIOHandler\<close> has set the pin up. A call of
  \<open>validate_rfid\<close> that starts with the relay LOW ends with the relay LOW, whether it
  returns or an exception leaves it, and the relay is HIGH during the call for at most
  \<open>UNLOCK_DURATION_SECONDS\<close>. The entry loop started with the relay LOW ends with it
  LOW, so every call it makes starts LOW. \<open>unlock_door\<close> ends LOW after exactly
  \<open>UNLOCK_DURATION_SECONDS\<close> HIGH, and \<open>flash_relay\<close> ends LOW. (A signal is delivered at
  \<open>input()\<close> only; one arriving inside a call is outside this model.)
\<close>

theorem relay_rests_low:
  assumes "relay st = LOW"
  shows "relay (GPIOHandler_enter st0) = LOW \<and>
         relay (snd (validate_rfid net uid st)) = LOW \<and>
         high_time LOW (validate_effects net uid st) \<le> UNLOCK_DURATION_SECONDS \<and>
         relay (snd (main_loop net ins st)) = LOW \<and>
         relay (unlock_door st) = LOW \<and>
         high_time LOW (new_events st (unlock_door st)) = UNLOCK_DURATION_SECONDS \<and>
         relay (flash_relay 6 (15 / 100) st) = LOW"
  using assms validate_relay_low [OF assms] validate_high_time main_loop_relay_low [OF assms]
  by (simp add: new_events_def unlock_events_def GPIOHandler_enter_def Let_def)

theorem relay_rests_low_witness:
  "relay initial = LOW \<and>
   relay (snd (validate_rfid scenario_A1 ''A1'' initial)) = LOW \<and>
   high_time LOW (validate_effects scenario_A1 ''A1'' initial) \<le> 5 \<and>
   relay (snd (main_loop scenario_A1 [Line ''A1'', Line ''B2''] initial)) = LOW"
proof -
  have h: "relay initial = LOW" by simp
  show ?thesis
    using h relay_rests_low [OF h, of initial scenario_A1 "''A1''" "[Line ''A1'', Line ''B2'']"]
    by (simp add: UNLOCK_DURATION_SECONDS_def)
qed

subsection \<open>C6: a verify status other than 200 is denied\<close>

text \<open>
  Claim C6, amended. When verify answers with a status other than 200, the outcome is
  Denied. For 403 and 404, with a body that is a JSON object or is not JSON at all, the
  reason is the \<open>message\<close> of the object when it has one, and the default
  "No detail provided" (capital N) otherwise. For every other status the reason is
  "Unexpected status " followed by the status code in decimal.
\<close>

theorem rejected_status_denied:
  assumes "net (calls st) VERIFY_RFID_URL (JDict [(''rfid_uid'', JStr uid)]) = Inr response"
    and "status_code response \<noteq> 200"
    and "status_code response = 403 \<or> status_code response = 404 \<longrightarrow>
           (\<exists>e. json response = Inl e \<and> is_ValueError e) \<or> (\<exists>d. json response = Inr (JDict d))"
  shows "fst (validate_rfid net uid st) = Inr () \<and>
         denied uid
           (if status_code response = 403 \<or> status_code response = 404
            then (case json response of
                    Inr (JDict d) \<Rightarrow>
                      (case map_of d ''message'' of
                         Some m \<Rightarrow> m | None \<Rightarrow> JStr ''No detail provided'')
                  | _ \<Rightarrow> JStr ''No detail provided'')
            else JStr (''Unexpected status '' @ show_int (status_code response)))
           (validate_effects net uid st)"
proof (cases "status_code response = 403 \<or> status_code response = 404")
  case True
  with assms(3) consider e where "json response = Inl e" "is_ValueError e"
    | d where "json response = Inr (JDict d)"
    by blast
  then show ?thesis
  proof cases
    case 1
    with assms(1,2) True show ?thesis by (simp add: run_simps denied_def)
  next
    case 2
    with assms(1,2) True show ?thesis by (simp add: run_simps denied_def)
  qed
next
  case False
  with assms(1,2) show ?thesis by (simp add: run_simps denied_def)
qed

text \<open>The scenario C3 of the specification: 403 with the message "expired".\<close>

theorem rejected_status_denied_witness:
  "fst (validate_rfid scenario_C3 ''C3'' initial) = Inr () \<and>
   denied ''C3'' (JStr ''expired'') (validate_effects scenario_C3 ''C3'' initial)"
proof -
  let ?response = "\<lparr>status_code = 403, json = Inr (JDict [(''message'', JStr ''expired'')])\<rparr>"
  have h1: "scenario_C3 (calls initial) VERIFY_RFID_URL (JDict [(''rfid_uid'', JStr ''C3'')])
              = Inr ?response"
    by (simp add: scenario_C3_def respond_def)
  have h2: "status_code ?response \<noteq> 200" by simp
  have h3: "status_code ?response = 403 \<or> status_code ?response = 404 \<longrightarrow>
            (\<exists>e. json ?response = Inl e \<and> is_ValueError e) \<or> (\<exists>d. json ?response = Inr (JDict d))"
    by simp
  show ?thesis
    using rejected_status_denied
      [where net = scenario_C3 and st = initial and uid = "''C3''", OF h1 h2 h3]
    by simp
qed

text \<open>
  Claim C6 as stated names the default reason "no detail provided"; for a 404 whose body
  is not JSON the reason printed is not that text.
\<close>

theorem not_found_default_reason_counterexample:
  "denial_reasons (validate_effects scenario_not_found ''C3'' initial) =
     [JStr ''No detail provided''] \<and>
   \<not> denied ''C3'' (JStr ''no detail provided'')
       (validate_effects scenario_not_found ''C3'' initial)"
  by (simp add: run_simps denied_def scenario_not_found_def)

text \<open>A status that is neither 200, 403 nor 404: the reason cites the code.\<close>

lemma server_error_denied:
  "denied ''C3'' (JStr ''Unexpected status 503'')
     (validate_effects (scripted [respond 503 JNull]) ''C3'' initial)"
  by (simp add: run_simps denied_def respond_def show_int_def show_nat.simps)

subsection \<open>C7: a verify body that is not JSON is denied\<close>

text \<open>
  Claim C7, amended. When verify answers 200 and parsing the body as JSON fails
  (\<open>response.json()\<close> raises a \<open>ValueError\<close>), the outcome is Denied (denial flash and
  nothing else on the actuator, one Denied record), and the reason is the text
  "Backend JSON parse error.".
\<close>

theorem unparseable_verification_denied:
  assumes "net (calls st) VERIFY_RFID_URL (JDict [(''rfid_uid'', JStr uid)]) = Inr response"
    and "status_code response = 200"
    and "json response = Inl e"
    and "is_ValueError e"
  shows "fst (validate_rfid net uid st) = Inr () \<and>
         denied uid (JStr ''Backend JSON parse error.'') (validate_effects net uid st)"
  using assms by (simp add: run_simps denied_def)

theorem unparseable_verification_denied_witness:
  "is_ValueError JSONDecodeError \<and>
   fst (validate_rfid scenario_not_json ''A1'' initial) = Inr () \<and>
   denied ''A1'' (JStr ''Backend JSON parse error.'')
     (validate_effects scenario_not_json ''A1'' initial)"
proof -
  let ?response = "\<lparr>status_code = 200, json = Inl JSONDecodeError\<rparr>"
  have h1: "scenario_not_json (calls initial) VERIFY_RFID_URL (JDict [(''rfid_uid'', JStr ''A1'')])
              = Inr ?response"
    by (simp add: scenario_not_json_def)
  have h2: "status_code ?response = 200" by simp
  have h3: "json ?response = Inl JSONDecodeError" by simp
  have h4: "is_ValueError JSONDecodeError" by simp
  show ?thesis
    using h4 unparseable_verification_denied
      [where net = scenario_not_json and st = initial and uid = "''A1''", OF h1 h2 h3 h4]
    by simp
qed

text \<open>
  Claim C7 as stated names the reason "response parse error"; the reason printed for a
  body that is not JSON is not that text.
\<close>

theorem unparseable_reason_counterexample:
  "denial_reasons (validate_effects scenario_not_json ''A1'' initial) =
     [JStr ''Backend JSON parse error.''] \<and>
   \<not> denied ''A1'' (JStr ''response parse error'')
       (validate_effects scenario_not_json ''A1'' initial)"
  by (simp add: run_simps denied_def scenario_not_json_def)

subsection \<open>C8: the process exits with status 0 after the cleanup\<close>

text \<open>
  Claim C8. Whatever the input and the backend, and so whichever exception leaves the
  entry loop (the interrupt signal, or an error such as the end of the input or an
  exception that escaped \<open>validate_rfid\<close>), \<open>main\<close> ends by raising \<open>SystemExit(0)\<close>, the
  process exits with status 0, and \<open>GPIO.cleanup\<close> has run before it does: the run ends
  with the cleanup and the line \<open>__exit__\<close> prints after it.
\<close>

theorem process_exits_zero_after_cleanup:
  "fst (main net ins st) = SystemExit 0 \<and>
   fst (program net ins) = 0 \<and>
   (\<exists>es. trace (snd (program net ins)) =
      es @ [GpioCleanup, Print (ExitingDueToException (SystemExit 0))])"
  by (simp add: program_def main_def GPIOHandler_enter_def GPIOHandler_exit_def Let_def split_beta)

text \<open>The two kinds of exit: an interrupt at the prompt, and the end of the input.\<close>

lemma exit_paths:
  "program net [Interrupt] =
     (0, \<lparr>relay = LOW,
          trace = [GpioSetwarnings False, GpioSetmodeBCM, GpioSetup RELAY_PIN LOW,
                   Print ReaderActive, Print ExitingGracefully,
                   GpioCleanup, Print (ExitingDueToException (SystemExit 0))],
          calls = 0\<rparr>)"
  "program net [] =
     (0, \<lparr>relay = LOW,
          trace = [GpioSetwarnings False, GpioSetmodeBCM, GpioSetup RELAY_PIN LOW,
                   Print ReaderActive, Print (UnexpectedError EOFError),
                   GpioCleanup, Print (ExitingDueToException (SystemExit 0))],
          calls = 0\<rparr>)"
  by (simp_all add: program_def main_def GPIOHandler_enter_def GPIOHandler_exit_def
      initial_def print_def emit_def)

subsection \<open>C9: a blank line is skipped\<close>

text \<open>
  Claim C9. A line that is empty or consists of whitespace only strips to the empty
  string, and the entry loop goes on to the next line in the same state: \<open>validate_rfid\<close>
  is not called, so nothing is printed, requested, actuated or logged for that line.
\<close>

theorem blank_line_skipped:
  assumes "\<forall>c \<in> set l. py_isspace c"
  shows "py_strip l = [] \<and> main_loop net (Line l # ins) st = main_loop net ins st"
  using py_strip_blank [OF assms] by simp

theorem blank_line_skipped_witness:
  "py_isspace CHR '' '' \<and> py_strip ''  '' = [] \<and>
   main_loop scenario_A1 [Line ''  '', Interrupt] initial = (KeyboardInterrupt, initial)"
proof -
  have h: "\<forall>c \<in> set ''  ''. py_isspace c" by (simp add: py_isspace_def)
  show ?thesis
    using h blank_line_skipped [OF h, of scenario_A1 "[Interrupt]" initial] by simp
qed

subsection \<open>C10: a missing status\<close>

text \<open>
  Claim C10, where the code departs from it. The verify response says \<open>success: true\<close>
  and its rfid object has no \<open>status\<close>. No activation request is made, and the door is
  not unlocked: the missing status is \<open>None\<close>, which \<open>activate_rfid_if_assigned\<close> hands
  back unchanged and \<open>validate_rfid\<close> takes for a failed activation. The outcome is
  Denied with the reason "RFID E5 could not be activated.".
\<close>

theorem missing_status_denied:
  "fst (validate_rfid scenario_no_status ''E5'' initial) = Inr () \<and>
   requests (validate_effects scenario_no_status ''E5'' initial) =
     [(VERIFY_RFID_URL, JDict [(''rfid_uid'', JStr ''E5'')])] \<and>
   denied ''E5'' (JStr ''RFID E5 could not be activated.'')
     (validate_effects scenario_no_status ''E5'' initial) \<and>
   \<not> granted ''E5'' JNull (validate_effects scenario_no_status ''E5'' initial)"
  by (simp add: run_simps activate_rfid_if_assigned_def denied_def granted_def
      scenario_no_status_def verified_with_def respond_def)

text \<open>
  The part of claim C10 that holds. An activation response with \<open>success: true\<close> and no
  status gives the status "unknown", and the door is unlocked.
\<close>

lemma activation_without_status_unlocks:
  "fst (validate_rfid scenario_activated_no_status ''B2'' initial) = Inr () \<and>
   Print (Activated ''B2'' (JStr ''unknown''))
     \<in> set (validate_effects scenario_activated_no_status ''B2'' initial) \<and>
   granted ''B2'' JNull (validate_effects scenario_activated_no_status ''B2'' initial)"
  by (simp add: run_simps activate_rfid_if_assigned_def granted_def
      scenario_activated_no_status_def verified_with_def respond_def)

end
